theory Spec2Isabelle
  imports Main
begin

section \<open>Syntax trees\<close>

text \<open>
  The plugin reads and builds ESTree nodes through the host's \<open>types\<close> helper \<open>t\<close>.
  A constructor's arguments are the fields the plugin reads, or the arguments the builder
  of the same name takes, in the builder's order:
  \<open>Property kind key value computed\<close>, \<open>MemberExpression object property computed\<close>,
  \<open>MethodDefinition kind key computed static value\<close>, \<open>ClassProperty key value\<close>,
  \<open>ClassDef id superClass body.body decorators\<close> (\<open>decorators\<close> is \<open>None\<close> while
  the field is undefined). An object literal holds properties and spread elements, a
  class body holds method definitions and class properties. \<open>OtherNode\<close> stands for
  every node type the plugin never looks into.
\<close>

datatype literal = LString string | LNumber int | LBoolean bool | LNull

datatype node =
    Identifier string
  | Literal literal
  | ObjectExpression "property list"
  | ArrayExpression "node list"
  | CallExpression node "node list"
  | MemberExpression node node bool
  | VariableDeclaration string "node list"
  | VariableDeclarator node node
  | FunctionDeclaration node "node list" node
  | FunctionExpression "node option" "node list" node
  | BlockStatement "node list"
  | ReturnStatement node
  | Decorator node
  | ClassNode class_def
  | Program "node list"
  | OtherNode string
and property =
    Property string node node bool
  | SpreadProperty node
and class_member =
    MethodDefinition string node bool bool node
  | ClassProperty node node
and class_def =
    ClassDef (class_id: "node option") (superClass: "node option")
             (class_body: "class_member list") (decorators: "node list option")

text \<open>Field reads; \<open>None\<close> is JavaScript's \<open>undefined\<close> (the node has no such field).\<close>

fun node_name :: "node \<Rightarrow> string option" where
  "node_name (Identifier n) = Some n"
| "node_name _ = None"

fun node_id :: "node \<Rightarrow> node option" where
  "node_id (ClassNode cls) = class_id cls"
| "node_id (FunctionDeclaration fid params body) = Some fid"
| "node_id (FunctionExpression fid params body) = fid"
| "node_id (VariableDeclarator vid init) = Some vid"
| "node_id _ = None"

fun node_arguments :: "node \<Rightarrow> node list option" where
  "node_arguments (CallExpression callee args) = Some args"
| "node_arguments _ = None"

fun node_properties :: "node \<Rightarrow> property list option" where
  "node_properties (ObjectExpression props) = Some props"
| "node_properties _ = None"

fun literal_value :: "node \<Rightarrow> literal option" where
  "literal_value (Literal l) = Some l"
| "literal_value _ = None"

text \<open>
  The errors the plugin can end with. The source throws plain \<open>Error\<close> objects; the
  constructors carry the specification's names: \<open>UnsafeRelativePathError\<close> is the throw
  of \<open>resolvePathConservatively\<close> (with the offending specifier),
  \<open>ConfigurationError\<close> the throw of \<open>getPluginOptions\<close>, and \<open>TypeError\<close> what the
  JavaScript runtime raises when a field of \<open>undefined\<close> is read.
\<close>

datatype error = ConfigurationError | UnsafeRelativePathError string | TypeError

section \<open>Path resolver\<close>

text \<open>
  Node's \<open>path\<close> module, the \<open>path-parse\<close> package and the module's \<open>__dirname\<close>
  are not part of the plugin: they are the fields of an environment every definition
  below takes as a parameter, so that what is proved holds for any of them.
\<close>

record parsed_path =
  root :: string
  dir :: string
  base :: string
  ext :: string
  name :: string

record path_env =
  path_sep :: string
  path_join :: "string list \<Rightarrow> string"
  path_resolve :: "string \<Rightarrow> string"
  path_relative :: "string \<Rightarrow> string \<Rightarrow> string"
  path_dirname :: "string \<Rightarrow> string"
  path_basename :: "string \<Rightarrow> string"
  parsePath :: "string \<Rightarrow> parsed_path"
  module_dirname :: string

definition parentDir :: "path_env \<Rightarrow> string" where
  "parentDir E = path_resolve E (path_join E [module_dirname E, ''..'', ''..''])"

text \<open>\<open>specifiedPath[0] === '.'\<close>; on the empty string the index reads \<open>undefined\<close>.\<close>

fun startsWithDot :: "string \<Rightarrow> bool" where
  "startsWithDot [] = False"
| "startsWithDot (c # cs) = (c = CHR ''.'')"

definition resolvePathConservatively :: "string \<Rightarrow> string \<Rightarrow> error + string" where
  "resolvePathConservatively specifiedPath filePath =
     (if startsWithDot specifiedPath then Inl (UnsafeRelativePathError specifiedPath)
      else Inr specifiedPath)"

definition resolvePathAssumingWeAreInNodeModules ::
    "path_env \<Rightarrow> string \<Rightarrow> string \<Rightarrow> error + string" where
  "resolvePathAssumingWeAreInNodeModules E specifiedPath filePath =
     (if startsWithDot specifiedPath then
        Inr (''.'' @ path_sep E @
             path_relative E (path_dirname E filePath)
               (path_resolve E (path_join E [parentDir E, ''..'', specifiedPath])))
      else Inr specifiedPath)"

definition resolvePath :: "path_env \<Rightarrow> string \<Rightarrow> string \<Rightarrow> error + string" where
  "resolvePath E =
     (if path_basename E (parentDir E) = ''node_modules''
      then resolvePathAssumingWeAreInNodeModules E
      else resolvePathConservatively)"

section \<open>Component detector\<close>

fun isRenderMethod :: "class_member \<Rightarrow> bool" where
  "isRenderMethod (MethodDefinition kind key computed static val) =
     (kind = ''method'' \<and> node_name key = Some ''render'')"
| "isRenderMethod (ClassProperty key val) = False"

definition isComponentishClass :: "class_def \<Rightarrow> bool" where
  "isComponentishClass cls = (length (filter isRenderMethod (class_body cls)) > 0)"

text \<open>
  \<open>isCreateClassCallExpression\<close>, the matcher the host builds from the pattern
  \<open>React.createClass\<close>, is a parameter.
\<close>

fun isCreateClass :: "(node \<Rightarrow> bool) \<Rightarrow> node \<Rightarrow> bool" where
  "isCreateClass isCreateClassCallExpression (CallExpression callee args) =
     (if \<not> isCreateClassCallExpression callee then False
      else if length args \<noteq> 1 then False
      else (case args of
              ObjectExpression props # rest \<Rightarrow> True
            | _ \<Rightarrow> False))"
| "isCreateClass isCreateClassCallExpression _ = False"

text \<open>
  The host's \<open>t.toComputedKey\<close> on a property: the key, with the identifier of a
  non-computed key turned into the string literal of its name; a spread element has no key.
  \<open>isLiteralWithValue key v\<close> is \<open>t.isLiteral(key, { value: v })\<close>.
\<close>

fun toComputedKey :: "property \<Rightarrow> node option" where
  "toComputedKey (Property kind key val computed) =
     (if \<not> computed then
        (case key of Identifier n \<Rightarrow> Some (Literal (LString n)) | _ \<Rightarrow> Some key)
      else Some key)"
| "toComputedKey (SpreadProperty arg) = None"

fun isLiteralWithValue :: "node option \<Rightarrow> literal \<Rightarrow> bool" where
  "isLiteralWithValue (Some (Literal l)) v = (l = v)"
| "isLiteralWithValue _ v = False"

fun prop_value :: "property \<Rightarrow> node option" where
  "prop_value (Property kind key val computed) = Some val"
| "prop_value (SpreadProperty arg) = None"

text \<open>The loop of \<open>findDisplayName\<close> over the properties that are left.\<close>

fun findDisplayName_loop :: "property list \<Rightarrow> error + literal option" where
  "findDisplayName_loop [] = Inr None"
| "findDisplayName_loop (prop # rest) =
     (if isLiteralWithValue (toComputedKey prop) (LString ''displayName'') then
        (case prop_value prop of
           None \<Rightarrow> Inl TypeError
         | Some v \<Rightarrow> Inr (literal_value v))
      else findDisplayName_loop rest)"

definition findDisplayName :: "node \<Rightarrow> error + literal option" where
  "findDisplayName node =
     (case node_id node of
        Some i \<Rightarrow> Inr (map_option LString (node_name i))
      | None \<Rightarrow>
         (case node_arguments node of
            None \<Rightarrow> Inr None
          | Some args \<Rightarrow>
             (case args of
                [] \<Rightarrow> Inl TypeError
              | first # rest \<Rightarrow>
                 (case node_properties first of
                    None \<Rightarrow> Inl TypeError
                  | Some props \<Rightarrow> findDisplayName_loop props))))"

section \<open>Host, file and traversal state\<close>

text \<open>
  The host compiler's capabilities are parameters too. \<open>'h\<close> is whatever state the host
  keeps (the names it has handed out, the imports it has registered, the tree it is
  working on); \<open>generateUidIdentifier hint h\<close> returns the name of the identifier it
  mints, \<open>addImport source name type h\<close> the reference to the imported module (\<open>None\<close>
  for an argument the call leaves out). The program node is an object the host may
  write to while it serves these calls (a helper it declares lands among the program's
  statements), so what \<open>node.body\<close> reads depends on the host's state:
  \<open>nodeBody h node\<close> is the list of statements found there, \<open>None\<close> when the node
  has no body.
\<close>

record 'h host =
  generateUidIdentifier :: "string \<Rightarrow> 'h \<Rightarrow> string \<times> 'h"
  addImport :: "string \<Rightarrow> string option \<Rightarrow> string option \<Rightarrow> 'h \<Rightarrow> node \<times> 'h"
  isCreateClassCallExpression :: "node \<Rightarrow> bool"
  nodeBody :: "'h \<Rightarrow> node \<Rightarrow> node list option"

text \<open>
  A transform target as the configuration gives it; \<open>imports\<close> and \<open>locals\<close> may be
  left out (\<open>None\<close>) and then default to the empty list. The value under
  \<open>extra['react-transform']\<close> is an array of targets or anything else.
\<close>

record target_options =
  target :: string
  target_imports :: "string list option"
  target_locals :: "string list option"

datatype plugin_options = OptionsArray "target_options list" | NotAnArray

record file_opts =
  extra :: "(string \<Rightarrow> plugin_options option) option"
  filename :: string

record source_file =
  opts :: "file_opts option"

text \<open>
  The plugin's per-file state bag. \<open>depthKey\<close> is a JavaScript number that starts out
  undefined; decrementing \<open>undefined\<close> gives \<open>NaN\<close>.
\<close>

datatype jsnum = JUndefined | JNaN | JNum int

record state =
  depthKey :: jsnum
  recordsKey :: "property list option"
  wrapComponentIdKey :: "node option"

text \<open>JavaScript's truthiness and string conversion of a literal's value.\<close>

fun truthy :: "literal \<Rightarrow> bool" where
  "truthy (LString s) = (s \<noteq> [])"
| "truthy (LNumber n) = (n \<noteq> 0)"
| "truthy (LBoolean b) = b"
| "truthy LNull = False"

fun nat_toString :: "nat \<Rightarrow> string" where
  "nat_toString n =
     (if n < 10 then [char_of (48 + n)]
      else nat_toString (n div 10) @ [char_of (48 + n mod 10)])"

fun toString :: "literal \<Rightarrow> string" where
  "toString (LString s) = s"
| "toString (LNumber n) = (if n < 0 then ''-'' @ nat_toString (nat (- n)) else nat_toString (nat n))"
| "toString (LBoolean b) = (if b then ''true'' else ''false'')"
| "toString LNull = ''null''"

text \<open>A node where the source passes a value that may be undefined.\<close>

fun orUndefined :: "node option \<Rightarrow> node" where
  "orUndefined (Some n) = n"
| "orUndefined None = OtherNode ''undefined''"

section \<open>Record and identity tracker\<close>

definition getPluginOptions :: "source_file \<Rightarrow> error + target_options list option" where
  "getPluginOptions file =
     (case opts file of
        None \<Rightarrow> Inr None
      | Some file_opts \<Rightarrow>
         (case extra file_opts of
            None \<Rightarrow> Inr None
          | Some extras \<Rightarrow>
             (case extras ''react-transform'' of
                Some (OptionsArray pluginOptions) \<Rightarrow> Inr (Some pluginOptions)
              | _ \<Rightarrow> Inl ConfigurationError)))"

definition createComponentRecord ::
    "'h host \<Rightarrow> node \<Rightarrow> state \<Rightarrow> 'h \<Rightarrow> error + ((string \<times> node) \<times> 'h)" where
  "createComponentRecord H node st h =
     (case findDisplayName node of
        Inl e \<Rightarrow> Inl e
      | Inr found \<Rightarrow>
         (let displayName = (case found of
                               Some l \<Rightarrow> if truthy l then Some l else None
                             | None \<Rightarrow> None);
              (uniqueId, h') = generateUidIdentifier H
                 (''$'' @ (case displayName of Some l \<Rightarrow> toString l | None \<Rightarrow> ''Unknown'')) h;
              props1 = (case displayName of
                          Some (LString s) \<Rightarrow>
                            [Property ''init'' (Identifier ''displayName'') (Literal (LString s)) False]
                        | _ \<Rightarrow> []);
              props2 = (case depthKey st of
                          JNum d \<Rightarrow>
                            if d > 0 then
                              [Property ''init'' (Identifier ''isInFunction'') (Literal (LBoolean True)) False]
                            else []
                        | _ \<Rightarrow> [])
          in Inr ((uniqueId, ObjectExpression (props1 @ props2)), h')))"

definition addComponentRecord ::
    "'h host \<Rightarrow> node \<Rightarrow> state \<Rightarrow> 'h \<Rightarrow> error + (string \<times> state \<times> 'h)" where
  "addComponentRecord H node st h =
     (case createComponentRecord H node st h of
        Inl e \<Rightarrow> Inl e
      | Inr ((uniqueId, definition), h') \<Rightarrow>
         Inr (uniqueId,
              st\<lparr>recordsKey :=
                   Some ((case recordsKey st of Some rs \<Rightarrow> rs | None \<Rightarrow> []) @
                         [Property ''init'' (Identifier uniqueId) definition False])\<rparr>,
              h'))"

definition foundComponentRecords :: "state \<Rightarrow> bool" where
  "foundComponentRecords st =
     (case recordsKey st of
        None \<Rightarrow> False
      | Some records \<Rightarrow> length records > 0)"

text \<open>
  \<open>defineComponentRecords\<close> runs only after \<open>foundComponentRecords\<close> has held, so
  \<open>records\<close> is a list there; the object literal of an undefined list is written with no
  properties.
\<close>

definition defineComponentRecords ::
    "'h host \<Rightarrow> state \<Rightarrow> 'h \<Rightarrow> (node \<times> node) \<times> state \<times> 'h" where
  "defineComponentRecords H st h =
     (let records = (case recordsKey st of Some rs \<Rightarrow> rs | None \<Rightarrow> []);
          st' = st\<lparr>recordsKey := Some []\<rparr>;
          (uid, h') = generateUidIdentifier H ''components'' h;
          componentsId = Identifier uid
      in ((componentsId,
           VariableDeclaration ''var'' [VariableDeclarator componentsId (ObjectExpression records)]),
          st', h'))"

section \<open>Code synthesizer\<close>

definition isSameAsFileBeingProcessed :: "path_env \<Rightarrow> string \<Rightarrow> string \<Rightarrow> error + bool" where
  "isSameAsFileBeingProcessed E fileName importPath =
     (case resolvePath E importPath fileName of
        Inl e \<Rightarrow> Inl e
      | Inr resolved \<Rightarrow>
         Inr (dir (parsePath E resolved) = ''.'' \<and>
              name (parsePath E resolved) = name (parsePath E fileName)))"

text \<open>\<open>Array.prototype.some\<close>: stops at the first element the callback accepts, or throws on.\<close>

fun some :: "('a \<Rightarrow> error + bool) \<Rightarrow> 'a list \<Rightarrow> error + bool" where
  "some f [] = Inr False"
| "some f (x # xs) =
     (case f x of
        Inl e \<Rightarrow> Inl e
      | Inr True \<Rightarrow> Inr True
      | Inr False \<Rightarrow> some f xs)"

text \<open>
  \<open>imports.map(imp => file.addImport(resolvePath(imp, filename), imp, 'absolute'))\<close>,
  threading the host's state from left to right.
\<close>

fun addImports ::
    "path_env \<Rightarrow> 'h host \<Rightarrow> string \<Rightarrow> string list \<Rightarrow> 'h \<Rightarrow> error + (node list \<times> 'h)" where
  "addImports E H fileName [] h = Inr ([], h)"
| "addImports E H fileName (imp # imps) h =
     (case resolvePath E imp fileName of
        Inl e \<Rightarrow> Inl e
      | Inr resolved \<Rightarrow>
         (let (ref, h1) = addImport H resolved (Some imp) (Some ''absolute'') h
          in case addImports E H fileName imps h1 of
               Inl e \<Rightarrow> Inl e
             | Inr (refs, h2) \<Rightarrow> Inr (ref # refs, h2)))"

definition defineInitTransformCall ::
    "path_env \<Rightarrow> 'h host \<Rightarrow> source_file \<Rightarrow> node \<Rightarrow> target_options \<Rightarrow> 'h
       \<Rightarrow> error + ((node \<times> node) option \<times> 'h)" where
  "defineInitTransformCall E H file recordsId targetOptions h =
     (let (uid, h1) = generateUidIdentifier H ''reactComponentWrapper'' h;
          wrapperId = Identifier uid;
          imports = (case target_imports targetOptions of Some l \<Rightarrow> l | None \<Rightarrow> []);
          locals = (case target_locals targetOptions of Some l \<Rightarrow> l | None \<Rightarrow> [])
      in case opts file of
           None \<Rightarrow> Inl TypeError
         | Some file_opts \<Rightarrow>
            (case some (isSameAsFileBeingProcessed E (filename file_opts)) imports of
               Inl e \<Rightarrow> Inl e
             | Inr True \<Rightarrow> Inr (None, h1)
             | Inr False \<Rightarrow>
                (case resolvePath E (target targetOptions) (filename file_opts) of
                   Inl e \<Rightarrow> Inl e
                 | Inr resolvedTarget \<Rightarrow>
                    (let (callee, h2) = addImport H resolvedTarget None None h1
                     in case addImports E H (filename file_opts) imports h2 of
                          Inl e \<Rightarrow> Inl e
                        | Inr (importRefs, h3) \<Rightarrow>
                           Inr (Some (wrapperId,
                                  VariableDeclaration ''var'' [
                                    VariableDeclarator wrapperId
                                      (CallExpression callee [
                                         ObjectExpression [
                                           Property ''init'' (Identifier ''filename'')
                                             (Literal (LString (filename file_opts))) False,
                                           Property ''init'' (Identifier ''components'')
                                             recordsId False,
                                           Property ''init'' (Identifier ''locals'')
                                             (ArrayExpression (map Identifier locals)) False,
                                           Property ''init'' (Identifier ''imports'')
                                             (ArrayExpression importRefs) False]])]),
                                h3)))))"

definition defineWrapComponent :: "node \<Rightarrow> node list \<Rightarrow> node" where
  "defineWrapComponent wrapComponentId initTransformIds =
     FunctionDeclaration wrapComponentId [Identifier ''uniqueId'']
       (BlockStatement [
         ReturnStatement
           (FunctionExpression None [Identifier ''ReactClass''] (BlockStatement [
             ReturnStatement
               (foldl (\<lambda>composed initTransformId.
                         CallExpression initTransformId [composed, Identifier ''uniqueId''])
                      (Identifier ''ReactClass'') initTransformIds)]))])"

section \<open>Visitor\<close>

definition Function_enter :: "state \<Rightarrow> state" where
  "Function_enter st =
     (let d0 = (case depthKey st of
                  JNum d \<Rightarrow> if d = 0 then 0 else d
                | _ \<Rightarrow> 0)
      in st\<lparr>depthKey := JNum (d0 + 1)\<rparr>)"

definition Function_exit :: "state \<Rightarrow> state" where
  "Function_exit st =
     st\<lparr>depthKey := (case depthKey st of JNum d \<Rightarrow> JNum (d - 1) | _ \<Rightarrow> JNaN)\<rparr>"

text \<open>
  The \<open>Class\<close> visitor mutates the class in place: the model returns the class as it
  stands after the push of the decorator, or \<open>None\<close> when the handler returns before
  it touches the node.
\<close>

definition Class_visit ::
    "'h host \<Rightarrow> class_def \<Rightarrow> state \<Rightarrow> 'h \<Rightarrow> error + (class_def option \<times> state \<times> 'h)" where
  "Class_visit H cls st h =
     (if \<not> isComponentishClass cls then Inr (None, st, h)
      else
        (let wrapReactComponentId = orUndefined (wrapComponentIdKey st)
         in case addComponentRecord H (ClassNode cls) st h of
              Inl e \<Rightarrow> Inl e
            | Inr (uniqueId, st', h') \<Rightarrow>
               Inr (Some (ClassDef (class_id cls) (superClass cls) (class_body cls)
                            (Some ((case decorators cls of Some ds \<Rightarrow> ds | None \<Rightarrow> []) @
                                   [Decorator (CallExpression wrapReactComponentId
                                                 [Literal (LString uniqueId)])]))),
                    st', h')))"

definition CallExpression_exit ::
    "'h host \<Rightarrow> node \<Rightarrow> state \<Rightarrow> 'h \<Rightarrow> error + (node option \<times> state \<times> 'h)" where
  "CallExpression_exit H node st h =
     (if \<not> isCreateClass (isCreateClassCallExpression H) node then Inr (None, st, h)
      else
        (let wrapReactComponentId = orUndefined (wrapComponentIdKey st)
         in case addComponentRecord H node st h of
              Inl e \<Rightarrow> Inl e
            | Inr (uniqueId, st', h') \<Rightarrow>
               Inr (Some (CallExpression
                            (CallExpression wrapReactComponentId [Literal (LString uniqueId)])
                            [node]),
                    st', h')))"

definition Program_enter :: "'h host \<Rightarrow> state \<Rightarrow> 'h \<Rightarrow> state \<times> 'h" where
  "Program_enter H st h =
     (let (uid, h') = generateUidIdentifier H ''wrapComponent'' h
      in (st\<lparr>wrapComponentIdKey := Some (Identifier uid)\<rparr>, h'))"

text \<open>
  \<open>allTransformOptions.map(...)\<close>: one result per target, \<open>None\<close> for a target that
  \<open>defineInitTransformCall\<close> returns nothing for.
\<close>

fun mapInitTransformCalls ::
    "path_env \<Rightarrow> 'h host \<Rightarrow> source_file \<Rightarrow> node \<Rightarrow> target_options list \<Rightarrow> 'h
       \<Rightarrow> error + ((node \<times> node) option list \<times> 'h)" where
  "mapInitTransformCalls E H file recordsId [] h = Inr ([], h)"
| "mapInitTransformCalls E H file recordsId (transformOptions # rest) h =
     (case defineInitTransformCall E H file recordsId transformOptions h of
        Inl e \<Rightarrow> Inl e
      | Inr (r, h1) \<Rightarrow>
         (case mapInitTransformCalls E H file recordsId rest h1 of
            Inl e \<Rightarrow> Inl e
          | Inr (rs, h2) \<Rightarrow> Inr (r # rs, h2)))"

text \<open>\<open>.filter(Boolean)\<close> on the results: the ones that are not undefined, in order.\<close>

fun filterBoolean :: "'a option list \<Rightarrow> 'a list" where
  "filterBoolean [] = []"
| "filterBoolean (None # rs) = filterBoolean rs"
| "filterBoolean (Some r # rs) = r # filterBoolean rs"

text \<open>
  \<open>Program.exit\<close> returns the program that replaces the node, or nothing (\<open>None\<close>) to
  leave the tree as it is. An exception leaves no result at all. \<open>node.body\<close> is read
  last, after every call of the host.
\<close>

definition Program_exit ::
    "path_env \<Rightarrow> 'h host \<Rightarrow> node \<Rightarrow> source_file \<Rightarrow> state \<Rightarrow> 'h
       \<Rightarrow> error + (node option \<times> state \<times> 'h)" where
  "Program_exit E H node file st h =
     (if \<not> foundComponentRecords st then Inr (None, st, h)
      else
        (case getPluginOptions file of
           Inl e \<Rightarrow> Inl e
         | Inr allTransformOptions \<Rightarrow>
            (let ((recordsId, recordsVar), st1, h1) = defineComponentRecords H st h
             in case allTransformOptions of
                  None \<Rightarrow> Inl TypeError
                | Some transformOptionsList \<Rightarrow>
                   (case mapInitTransformCalls E H file recordsId transformOptionsList h1 of
                      Inl e \<Rightarrow> Inl e
                    | Inr (results, h2) \<Rightarrow>
                       (let initTransformCalls = filterBoolean results;
                            initTransformIds = map fst initTransformCalls;
                            initTransformVars = map snd initTransformCalls;
                            wrapComponentId = orUndefined (wrapComponentIdKey st1);
                            wrapComponent = defineWrapComponent wrapComponentId initTransformIds
                        in case nodeBody H h2 node of
                             Some body \<Rightarrow>
                               Inr (Some (Program ([recordsVar] @ initTransformVars @
                                                   [wrapComponent] @ body)),
                                    st1, h2)
                           | None \<Rightarrow> Inl TypeError)))))"

section \<open>One traversal\<close>

text \<open>
  The host's traversal decides which handler runs on which node and in which order; the
  plugin sees a sequence of handler calls between \<open>Program.enter\<close> and \<open>Program.exit\<close>.
  An event is one such call, and \<open>transform\<close> runs the handlers over any sequence of
  them. Each event leaves an effect on its node: none, the class as the \<open>Class\<close> handler
  mutated it, or the expression that replaces a call.
\<close>

datatype event =
    EnterFunction
  | ExitFunction
  | VisitClass class_def
  | ExitCallExpression node

datatype effect = Untouched | ClassNow class_def | ReplacedBy node

definition handle :: "'h host \<Rightarrow> event \<Rightarrow> state \<Rightarrow> 'h \<Rightarrow> error + (effect \<times> state \<times> 'h)" where
  "handle H ev st h =
     (case ev of
        EnterFunction \<Rightarrow> Inr (Untouched, Function_enter st, h)
      | ExitFunction \<Rightarrow> Inr (Untouched, Function_exit st, h)
      | VisitClass cls \<Rightarrow>
         (case Class_visit H cls st h of
            Inl e \<Rightarrow> Inl e
          | Inr (None, st', h') \<Rightarrow> Inr (Untouched, st', h')
          | Inr (Some cls', st', h') \<Rightarrow> Inr (ClassNow cls', st', h'))
      | ExitCallExpression node \<Rightarrow>
         (case CallExpression_exit H node st h of
            Inl e \<Rightarrow> Inl e
          | Inr (None, st', h') \<Rightarrow> Inr (Untouched, st', h')
          | Inr (Some node', st', h') \<Rightarrow> Inr (ReplacedBy node', st', h')))"

fun traverse ::
    "'h host \<Rightarrow> event list \<Rightarrow> state \<Rightarrow> 'h \<Rightarrow> error + (effect list \<times> state \<times> 'h)" where
  "traverse H [] st h = Inr ([], st, h)"
| "traverse H (ev # evs) st h =
     (case handle H ev st h of
        Inl e \<Rightarrow> Inl e
      | Inr (eff, st1, h1) \<Rightarrow>
         (case traverse H evs st1 h1 of
            Inl e \<Rightarrow> Inl e
          | Inr (effs, st2, h2) \<Rightarrow> Inr (eff # effs, st2, h2)))"

definition initial_state :: state where
  "initial_state = \<lparr>depthKey = JUndefined, recordsKey = None, wrapComponentIdKey = None\<rparr>"

text \<open>
  The whole transform of one file: the effects on the visited nodes and the program that
  replaces the original one (\<open>None\<close>: the original stays).
\<close>

definition transform ::
    "path_env \<Rightarrow> 'h host \<Rightarrow> source_file \<Rightarrow> event list \<Rightarrow> node \<Rightarrow> 'h
       \<Rightarrow> error + (effect list \<times> node option \<times> state \<times> 'h)" where
  "transform E H file evs program h =
     (let (st0, h0) = Program_enter H initial_state h
      in case traverse H evs st0 h0 of
           Inl e \<Rightarrow> Inl e
         | Inr (effs, st1, h1) \<Rightarrow>
            (case Program_exit E H program file st1 h1 of
               Inl e \<Rightarrow> Inl e
             | Inr (replacement, st2, h2) \<Rightarrow> Inr (effs, replacement, st2, h2)))"

section \<open>The specification's notions\<close>

text \<open>
  The nested call the specification writes as
  \<open>transformN(... transform2(transform1(input, uniqueId), uniqueId) ..., uniqueId)\<close>,
  given the transforms from the outermost to the innermost one.
\<close>

fun spec_threaded_call :: "node list \<Rightarrow> node" where
  "spec_threaded_call [] = Identifier ''ReactClass''"
| "spec_threaded_call (outer # inner) =
     CallExpression outer [spec_threaded_call inner, Identifier ''uniqueId'']"

text \<open>The call reached by following first arguments for as long as they are calls.\<close>

fun innermost_call :: "node \<Rightarrow> node" where
  "innermost_call (CallExpression f [CallExpression g args, u]) =
     innermost_call (CallExpression g args)"
| "innermost_call n = n"



text \<open>
  A property whose name is statically the string \<open>n\<close>: a key that is the identifier
  \<open>n\<close> and not computed, or a key that is the string literal \<open>n\<close>.
\<close>

fun statically_named :: "string \<Rightarrow> property \<Rightarrow> bool" where
  "statically_named n (Property kind (Identifier k) val computed) = (\<not> computed \<and> k = n)"
| "statically_named n (Property kind (Literal (LString k)) val computed) = (k = n)"
| "statically_named n _ = False"

text \<open>
  The literal value of the first property statically named \<open>displayName\<close>; nothing when
  there is no such property or its value is not a literal.
\<close>

definition spec_displayName :: "property list \<Rightarrow> literal option" where
  "spec_displayName props =
     (case find (statically_named ''displayName'') props of
        None \<Rightarrow> None
      | Some p \<Rightarrow> (case prop_value p of None \<Rightarrow> None | Some v \<Rightarrow> literal_value v))"

text \<open>
  The literal values the properties statically named \<open>n\<close> carry, in the order of the
  properties: what there is to return when the specification's "a statically-literal
  property named \<open>n\<close>" is present.
\<close>

definition literal_values_named :: "string \<Rightarrow> property list \<Rightarrow> literal list" where
  "literal_values_named n props =
     concat (map (\<lambda>p. if statically_named n p then
                          (case prop_value p of
                             None \<Rightarrow> []
                           | Some v \<Rightarrow> (case literal_value v of None \<Rightarrow> [] | Some l \<Rightarrow> [l]))
                        else []) props)"

text \<open>An event on a node that is not component-like: the handler returns at its first test.\<close>

fun no_component :: "'h host \<Rightarrow> event \<Rightarrow> bool" where
  "no_component H EnterFunction = True"
| "no_component H ExitFunction = True"
| "no_component H (VisitClass cls) = (\<not> isComponentishClass cls)"
| "no_component H (ExitCallExpression node) =
     (\<not> isCreateClass (isCreateClassCallExpression H) node)"

text \<open>\<open>defineInitTransformCall\<close> returned nothing: no identifier, no declaration.\<close>

fun omitted :: "error + ('a option \<times> 'h) \<Rightarrow> bool" where
  "omitted (Inr (None, h)) = True"
| "omitted _ = False"

text \<open>
  An import specifier refers to the file being processed, as the guard tests it: it
  resolves, the directory component of the resolved path is \<open>.\<close> (the directory of the
  file being processed, which resolved relative paths start from) and its base name
  without extension is that of the file.
\<close>

definition refers_to_file_being_processed :: "path_env \<Rightarrow> string \<Rightarrow> string \<Rightarrow> bool" where
  "refers_to_file_being_processed E fileName importPath =
     (case resolvePath E importPath fileName of
        Inl e \<Rightarrow> False
      | Inr resolved \<Rightarrow>
         dir (parsePath E resolved) = ''.'' \<and>
         name (parsePath E resolved) = name (parsePath E fileName))"

text \<open>
  The sameness the specification words: the resolved specifier and the file have the
  same directory component and the same base name without extension.
\<close>

definition spec_same_module :: "path_env \<Rightarrow> string \<Rightarrow> string \<Rightarrow> bool" where
  "spec_same_module E fileName importPath =
     (case resolvePath E importPath fileName of
        Inl e \<Rightarrow> False
      | Inr resolved \<Rightarrow>
         dir (parsePath E resolved) = dir (parsePath E fileName) \<and>
         name (parsePath E resolved) = name (parsePath E fileName))"

definition imports_of :: "target_options \<Rightarrow> string list" where
  "imports_of t = (case target_imports t of Some l \<Rightarrow> l | None \<Rightarrow> [])"


text \<open>A target the guard of \<open>defineInitTransformCall\<close> stops at: \<open>imports.some(...)\<close> is true.\<close>

definition self_importing :: "path_env \<Rightarrow> string \<Rightarrow> target_options \<Rightarrow> bool" where
  "self_importing E fileName t =
     (some (isSameAsFileBeingProcessed E fileName) (imports_of t) = Inr True)"

text \<open>
  What the specification has the synthesizer make of the targets, as a function of the
  configuration and of the host's answers. \<open>resolved\<close> is a specifier as the path
  resolver rewrites it (used where it does resolve). For a target that is not skipped
  the host is asked, in this order, for a fresh identifier, for the import of the
  resolved target, and for the import of each resolved entry of \<open>imports\<close> under its
  configured name; the declaration binds the identifier to the call of the imported
  target on \<open>{filename, components, locals, imports}\<close>. A target one of whose imports
  refers to the file being processed costs the fresh identifier it has drawn and
  yields nothing.
\<close>

definition resolved :: "path_env \<Rightarrow> string \<Rightarrow> string \<Rightarrow> string" where
  "resolved E fileName specifier =
     (case resolvePath E specifier fileName of Inl e \<Rightarrow> specifier | Inr p \<Rightarrow> p)"





section \<open>An environment for the examples\<close>

text \<open>
  The examples run the plugin in a POSIX environment: Node's \<open>path\<close> functions on
  \<open>/\<close>-separated paths with the working directory \<open>/\<close>, and \<open>path-parse\<close> on paths
  that do not end in a separator. The host hands out \<open>_hint\<close>, \<open>_hint2\<close>, ... and keeps
  the log of what it was asked for.
\<close>

fun splitSlash :: "string \<Rightarrow> string list" where
  "splitSlash [] = [[]]"
| "splitSlash (c # cs) =
     (if c = CHR ''/'' then [] # splitSlash cs
      else (case splitSlash cs of
              [] \<Rightarrow> [[c]]
            | seg # segs \<Rightarrow> (c # seg) # segs))"

fun joinSlash :: "string list \<Rightarrow> string" where
  "joinSlash [] = []"
| "joinSlash [s] = s"
| "joinSlash (s # t # rest) = s @ ''/'' @ joinSlash (t # rest)"

fun normalizeArray :: "string list \<Rightarrow> bool \<Rightarrow> string list \<Rightarrow> string list" where
  "normalizeArray [] allowAboveRoot res = res"
| "normalizeArray (p # parts) allowAboveRoot res =
     (if p = [] \<or> p = ''.'' then normalizeArray parts allowAboveRoot res
      else if p = ''..'' then
        (if res \<noteq> [] \<and> last res \<noteq> ''..''
         then normalizeArray parts allowAboveRoot (butlast res)
         else if allowAboveRoot then normalizeArray parts allowAboveRoot (res @ [''..''])
         else normalizeArray parts allowAboveRoot res)
      else normalizeArray parts allowAboveRoot (res @ [p]))"

definition isAbsolute :: "string \<Rightarrow> bool" where
  "isAbsolute p = (case p of [] \<Rightarrow> False | c # cs \<Rightarrow> c = CHR ''/'')"

definition posix_resolve :: "string \<Rightarrow> string" where
  "posix_resolve p =
     ''/'' @ joinSlash
       (normalizeArray (splitSlash (if isAbsolute p then p else ''/'' @ p)) False [])"

definition posix_normalize :: "string \<Rightarrow> string" where
  "posix_normalize p =
     (let body = joinSlash (normalizeArray (splitSlash p) (\<not> isAbsolute p) []);
          body1 = (if body = [] \<and> \<not> isAbsolute p then ''.'' else body);
          body2 = (if body1 \<noteq> [] \<and> p \<noteq> [] \<and> last p = CHR ''/''
                   then body1 @ ''/'' else body1)
      in (if isAbsolute p then ''/'' else []) @ body2)"

definition posix_join :: "string list \<Rightarrow> string" where
  "posix_join parts = posix_normalize (joinSlash (filter (\<lambda>s. s \<noteq> []) parts))"

fun dropCommon :: "string list \<Rightarrow> string list \<Rightarrow> string list \<times> string list" where
  "dropCommon (a # as) (b # bs) = (if a = b then dropCommon as bs else (a # as, b # bs))"
| "dropCommon as bs = (as, bs)"

definition posix_relative :: "string \<Rightarrow> string \<Rightarrow> string" where
  "posix_relative from to =
     (let fromParts = filter (\<lambda>s. s \<noteq> []) (splitSlash (posix_resolve from));
          toParts = filter (\<lambda>s. s \<noteq> []) (splitSlash (posix_resolve to));
          (fromRest, toRest) = dropCommon fromParts toParts
      in joinSlash (map (\<lambda>_. ''..'') fromRest @ toRest))"

definition posix_dirname :: "string \<Rightarrow> string" where
  "posix_dirname p =
     (let segs = splitSlash p
      in if length segs \<le> 1 then ''.''
         else (let d = joinSlash (butlast segs) in if d = [] then ''/'' else d))"

definition posix_basename :: "string \<Rightarrow> string" where
  "posix_basename p = last (splitSlash p)"

fun lastDot :: "string \<Rightarrow> nat option" where
  "lastDot [] = None"
| "lastDot (c # cs) =
     (case lastDot cs of
        Some i \<Rightarrow> Some (Suc i)
      | None \<Rightarrow> if c = CHR ''.'' then Some 0 else None)"

definition posix_parse :: "string \<Rightarrow> parsed_path" where
  "posix_parse p =
     (let segs = splitSlash p;
          b = last segs;
          d = joinSlash (butlast segs);
          n = (if b = ''..'' then b
               else (case lastDot b of
                       Some (Suc i) \<Rightarrow> take (Suc i) b
                     | _ \<Rightarrow> b))
      in \<lparr>root = (if isAbsolute p then ''/'' else []),
          dir = (if d = [] \<and> isAbsolute p then ''/'' else d),
          base = b,
          ext = drop (length n) b,
          name = n\<rparr>)"

definition posix_env :: "string \<Rightarrow> path_env" where
  "posix_env moduleDir =
     \<lparr>path_sep = ''/'', path_join = posix_join, path_resolve = posix_resolve,
      path_relative = posix_relative, path_dirname = posix_dirname,
      path_basename = posix_basename, parsePath = posix_parse,
      module_dirname = moduleDir\<rparr>"

text \<open>
  The plugin installed as a dependency of the project \<open>/home/me/app\<close>, and the plugin
  checked out beside the project's sources.
\<close>

definition installed_env :: path_env where
  "installed_env = posix_env ''/home/me/app/node_modules/babel-plugin-react-transform/lib''"

definition checkout_env :: path_env where
  "checkout_env = posix_env ''/home/me/app/babel-plugin-react-transform/lib''"

definition demo_generateUidIdentifier :: "string \<Rightarrow> string list \<Rightarrow> string \<times> string list" where
  "demo_generateUidIdentifier hint h =
     (let n = length (filter (\<lambda>x. x = ''uid '' @ hint) h)
      in (''_'' @ hint @ (if n = 0 then [] else nat_toString (Suc n)), h @ [''uid '' @ hint]))"

definition demo_addImport ::
    "string \<Rightarrow> string option \<Rightarrow> string option \<Rightarrow> string list \<Rightarrow> node \<times> string list" where
  "demo_addImport source importName importType h =
     (Identifier (''_import_'' @ source), h @ [''import '' @ source])"

text \<open>
  Once this host has registered an import, a helper declaration stands in front of the
  program's statements.
\<close>

fun demo_nodeBody :: "string list \<Rightarrow> node \<Rightarrow> node list option" where
  "demo_nodeBody h (Program body) =
     Some ((if list_ex (\<lambda>entry. take 7 entry = ''import '') h
            then [OtherNode ''FunctionDeclaration _interopRequireDefault'']
            else []) @ body)"
| "demo_nodeBody h _ = None"

definition demo_host :: "string list host" where
  "demo_host =
     \<lparr>generateUidIdentifier = demo_generateUidIdentifier,
      addImport = demo_addImport,
      isCreateClassCallExpression =
        (\<lambda>callee. callee =
           MemberExpression (Identifier ''React'') (Identifier ''createClass'') False),
      nodeBody = demo_nodeBody\<rparr>"

definition app_file :: "(string \<Rightarrow> plugin_options option) option \<Rightarrow> source_file" where
  "app_file extras =
     \<lparr>opts = Some \<lparr>extra = extras, filename = ''/home/me/app/src/App.js''\<rparr>\<rparr>"

text \<open>
  A class with no \<open>render\<close> method, a class with one, and a traversal that meets no
  component: the plain class, a function, and a call of \<open>require\<close> inside it.
\<close>

definition plain_class :: class_def where
  "plain_class =
     ClassDef (Some (Identifier ''Store'')) None
       [MethodDefinition ''method'' (Identifier ''load'') False False
          (OtherNode ''FunctionExpression'')] None"

definition component_class :: class_def where
  "component_class =
     ClassDef (Some (Identifier ''Foo'')) None
       [MethodDefinition ''method'' (Identifier ''render'') False False
          (OtherNode ''FunctionExpression'')] None"

definition quiet_events :: "event list" where
  "quiet_events =
     [VisitClass plain_class, EnterFunction,
      ExitCallExpression (CallExpression (Identifier ''require'') [Literal (LString ''react'')]),
      ExitFunction]"



definition two_displayNames :: "property list" where
  "two_displayNames =
     [Property ''init'' (Identifier ''displayName'') (Identifier ''name'') False,
      Property ''init'' (Identifier ''displayName'') (Literal (LString ''B'')) False]"

definition two_displayNames_call :: node where
  "two_displayNames_call =
     CallExpression (MemberExpression (Identifier ''React'') (Identifier ''createClass'') False)
       [ObjectExpression two_displayNames]"

text \<open>
  Three targets: the second imports \<open>./src/App\<close>, the file being processed. The state
  is the one the traversal of the class \<open>Foo\<close> leaves behind.
\<close>

definition wrap_target :: target_options where
  "wrap_target = \<lparr>target = ''wrap-lib'', target_imports = None, target_locals = Some [''module'']\<rparr>"

definition hot_target :: target_options where
  "hot_target =
     \<lparr>target = ''hot-lib'', target_imports = Some [''react'', ''./src/App''],
      target_locals = None\<rparr>"

definition catch_target :: target_options where
  "catch_target =
     \<lparr>target = ''./lib/catch'', target_imports = Some [''react''], target_locals = None\<rparr>"

definition demo_file :: source_file where
  "demo_file =
     app_file (Some (\<lambda>k. if k = ''react-transform''
                          then Some (OptionsArray [wrap_target, hot_target, catch_target])
                          else None))"


text \<open>The init call the example host produces, and the program rebuilt for the example.\<close>

definition init_call ::
    "string \<Rightarrow> string \<Rightarrow> string list \<Rightarrow> string list \<Rightarrow> node" where
  "init_call wrapper source localNames importNames =
     VariableDeclaration ''var''
       [VariableDeclarator (Identifier wrapper)
          (CallExpression (Identifier (''_import_'' @ source))
             [ObjectExpression
                [Property ''init'' (Identifier ''filename'')
                   (Literal (LString ''/home/me/app/src/App.js'')) False,
                 Property ''init'' (Identifier ''components'') (Identifier ''_components'') False,
                 Property ''init'' (Identifier ''locals'')
                   (ArrayExpression (map Identifier localNames)) False,
                 Property ''init'' (Identifier ''imports'')
                   (ArrayExpression (map (\<lambda>n. Identifier (''_import_'' @ n)) importNames))
                   False]])]"


section \<open>Verified properties\<close>

subsection \<open>The wrapper function\<close>

lemma foldl_wrap_snoc:
  "foldl (\<lambda>composed initTransformId.
            CallExpression initTransformId [composed, Identifier ''uniqueId''])
         (Identifier ''ReactClass'') ts = spec_threaded_call (rev ts)"
  by (induction ts rule: rev_induct) simp_all

lemma spec_threaded_call_snoc_is_call:
  "\<exists>g args. spec_threaded_call (outer @ [t]) = CallExpression g args"
  by (cases outer) simp_all

lemma innermost_call_threaded:
  "innermost_call (spec_threaded_call (outer @ [t])) =
     CallExpression t [Identifier ''ReactClass'', Identifier ''uniqueId'']"
proof (induction outer)
  case Nil
  show ?case by simp
next
  case (Cons a outer)
  obtain g args where "spec_threaded_call (outer @ [t]) = CallExpression g args"
    using spec_threaded_call_snoc_is_call by blast
  with Cons show ?case by simp
qed

text \<open>
  Claim C3. For a non-empty list of transform identifiers \<open>[T1, ..., Tn]\<close>,
  \<open>defineWrapComponent W [T1, ..., Tn]\<close> is the declaration of a function \<open>W\<close> of the one
  parameter \<open>uniqueId\<close> that returns a function of the one parameter \<open>ReactClass\<close> whose
  body returns \<open>Tn(... T2(T1(ReactClass, uniqueId), uniqueId) ..., uniqueId)\<close>; the
  innermost call is the first transform applied to \<open>ReactClass\<close> and \<open>uniqueId\<close>.
\<close>

theorem defineWrapComponent_threads_in_order:
  assumes "ts \<noteq> []"
  shows "defineWrapComponent W ts =
           FunctionDeclaration W [Identifier ''uniqueId'']
             (BlockStatement [ReturnStatement
                (FunctionExpression None [Identifier ''ReactClass'']
                   (BlockStatement [ReturnStatement (spec_threaded_call (rev ts))]))])
         \<and> innermost_call (spec_threaded_call (rev ts)) =
             CallExpression (hd ts) [Identifier ''ReactClass'', Identifier ''uniqueId'']"
proof (rule conjI)
  show "defineWrapComponent W ts =
           FunctionDeclaration W [Identifier ''uniqueId'']
             (BlockStatement [ReturnStatement
                (FunctionExpression None [Identifier ''ReactClass'']
                   (BlockStatement [ReturnStatement (spec_threaded_call (rev ts))]))])"
    by (simp add: defineWrapComponent_def foldl_wrap_snoc)
next
  from assms obtain t rest where ts: "ts = t # rest" by (cases ts) auto
  show "innermost_call (spec_threaded_call (rev ts)) =
          CallExpression (hd ts) [Identifier ''ReactClass'', Identifier ''uniqueId'']"
    unfolding ts using innermost_call_threaded [of "rev rest" t] by simp
qed

text \<open>The three transforms \<open>A\<close>, \<open>B\<close>, \<open>C\<close> give \<open>C(B(A(ReactClass, uniqueId), uniqueId), uniqueId)\<close>.\<close>

theorem defineWrapComponent_threads_in_order_witness:
  "[Identifier ''A'', Identifier ''B'', Identifier ''C''] \<noteq> [] \<and>
   defineWrapComponent (Identifier ''_wrapComponent'')
       [Identifier ''A'', Identifier ''B'', Identifier ''C''] =
     FunctionDeclaration (Identifier ''_wrapComponent'') [Identifier ''uniqueId'']
       (BlockStatement [ReturnStatement
          (FunctionExpression None [Identifier ''ReactClass'']
             (BlockStatement [ReturnStatement
                (CallExpression (Identifier ''C'')
                   [CallExpression (Identifier ''B'')
                      [CallExpression (Identifier ''A'')
                         [Identifier ''ReactClass'', Identifier ''uniqueId''],
                       Identifier ''uniqueId''],
                    Identifier ''uniqueId''])]))])"
  using defineWrapComponent_threads_in_order
          [of "[Identifier ''A'', Identifier ''B'', Identifier ''C'']" "Identifier ''_wrapComponent''"]
  by simp

text \<open>
  Claim C4. With no transform identifiers the synthesized inner function returns its
  \<open>ReactClass\<close> parameter itself: it is the identity function.
\<close>

theorem defineWrapComponent_empty_is_identity:
  "defineWrapComponent W [] =
     FunctionDeclaration W [Identifier ''uniqueId'']
       (BlockStatement [ReturnStatement
          (FunctionExpression None [Identifier ''ReactClass'']
             (BlockStatement [ReturnStatement (Identifier ''ReactClass'')]))])"
  by (simp add: defineWrapComponent_def)

subsection \<open>The component detector\<close>






lemma findDisplayName_loop_spec: "findDisplayName_loop props = Inr (spec_displayName props)"
proof (induction props)
  case Nil
  show ?case by (simp add: spec_displayName_def)
next
  case (Cons p props)
  show ?case
  proof (cases "statically_named ''displayName'' p")
    case True
    then show ?thesis
      by (cases "(''displayName'', p)" rule: statically_named.cases)
         (auto simp: spec_displayName_def split: if_splits)
  next
    case False
    then have "\<not> isLiteralWithValue (toComputedKey p) (LString ''displayName'')"
      by (cases "(''displayName'', p)" rule: statically_named.cases)
         (auto split: if_splits node.splits literal.splits)
    with False Cons show ?thesis by (simp add: spec_displayName_def)
  qed
qed

lemma isCreateClass_shape:
  "isCreateClass M node \<Longrightarrow> \<exists>callee props. node = CallExpression callee [ObjectExpression props]"
  by (cases "(M, node)" rule: isCreateClass.cases)
     (auto split: if_splits list.splits node.splits)

lemma spec_displayName_is_a_literal_value:
  "spec_displayName props = Some l \<Longrightarrow> l \<in> set (literal_values_named ''displayName'' props)"
proof (induction props)
  case Nil
  then show ?case by (simp add: spec_displayName_def)
next
  case (Cons p props)
  show ?case
  proof (cases "statically_named ''displayName'' p")
    case True
    with Cons.prems show ?thesis
      by (auto simp: spec_displayName_def literal_values_named_def split: option.splits)
  next
    case False
    with Cons show ?thesis
      by (simp add: spec_displayName_def literal_values_named_def)
  qed
qed

text \<open>
  Claim C8, as stated, fails: in \<open>React.createClass({displayName: name, displayName: 'B'})\<close>,
  a call the plugin does pass, a statically-literal property named \<open>displayName\<close> is
  present, with the literal value \<open>B\<close>, and \<open>findDisplayName\<close> returns nothing: the
  loop returns at the first property of that name, whose value is not a literal.
\<close>

theorem findDisplayName_stops_at_first_displayName:
  "isCreateClass (isCreateClassCallExpression demo_host) two_displayNames_call
   \<and> literal_values_named ''displayName'' two_displayNames = [LString ''B'']
   \<and> findDisplayName two_displayNames_call = Inr None"
  by (simp add: two_displayNames_call_def two_displayNames_def demo_host_def
        literal_values_named_def findDisplayName_def)

text \<open>
  Claim C8, amended. For every node the plugin passes (a class, or a call that
  \<open>isCreateClass\<close> accepts) \<open>findDisplayName\<close> returns the name bound to the node when it
  has one; otherwise, for a call, the literal value of the first property statically
  named \<open>displayName\<close> among the properties of the single object-literal argument, when
  there is such a property and its value is a literal; in every other case nothing.
  What it returns for a call is always the literal value of a property statically named
  \<open>displayName\<close>.
\<close>

theorem findDisplayName_on_classes_and_factory_calls:
  "(node_id node = Some i \<longrightarrow> findDisplayName node = Inr (map_option LString (node_name i)))
   \<and> findDisplayName (CallExpression callee (ObjectExpression props # rest)) =
       Inr (spec_displayName props)
   \<and> (isCreateClass M node \<longrightarrow>
        (\<exists>callee props. node = CallExpression callee [ObjectExpression props]
           \<and> findDisplayName node = Inr (spec_displayName props)))
   \<and> (spec_displayName props = Some l \<longrightarrow>
        l \<in> set (literal_values_named ''displayName'' props))
   \<and> (node_id node = None \<and> node_arguments node = None \<longrightarrow> findDisplayName node = Inr None)"
proof (intro conjI impI)
  assume "isCreateClass M node"
  from isCreateClass_shape [OF this] obtain callee props where
    "node = CallExpression callee [ObjectExpression props]" by blast
  then show "\<exists>callee props. node = CallExpression callee [ObjectExpression props]
           \<and> findDisplayName node = Inr (spec_displayName props)"
    by (simp add: findDisplayName_def findDisplayName_loop_spec)
next
  assume "spec_displayName props = Some l"
  then show "l \<in> set (literal_values_named ''displayName'' props)"
    by (rule spec_displayName_is_a_literal_value)
qed (simp_all add: findDisplayName_def findDisplayName_loop_spec)

text \<open>
  The class \<open>Foo\<close>, a \<open>React.createClass\<close> call with \<open>displayName: 'Bar'\<close>, and an
  anonymous class.
\<close>

theorem findDisplayName_on_classes_and_factory_calls_witness:
  "findDisplayName
     (ClassNode (ClassDef (Some (Identifier ''Foo'')) None
        [MethodDefinition ''method'' (Identifier ''render'') False False
           (OtherNode ''FunctionExpression'')] None)) = Inr (Some (LString ''Foo''))
   \<and> isCreateClass (isCreateClassCallExpression demo_host)
     (CallExpression (MemberExpression (Identifier ''React'') (Identifier ''createClass'') False)
        [ObjectExpression
           [Property ''init'' (Identifier ''render'') (OtherNode ''FunctionExpression'') False,
            Property ''init'' (Identifier ''displayName'') (Literal (LString ''Bar'')) False]])
   \<and> findDisplayName
     (CallExpression (MemberExpression (Identifier ''React'') (Identifier ''createClass'') False)
        [ObjectExpression
           [Property ''init'' (Identifier ''render'') (OtherNode ''FunctionExpression'') False,
            Property ''init'' (Identifier ''displayName'') (Literal (LString ''Bar'')) False]]) =
       Inr (Some (LString ''Bar''))
   \<and> findDisplayName
     (ClassNode (ClassDef None None
        [MethodDefinition ''method'' (Identifier ''render'') False False
           (OtherNode ''FunctionExpression'')] None)) = Inr None"
  using findDisplayName_on_classes_and_factory_calls
          [where node = "ClassNode (ClassDef (Some (Identifier ''Foo'')) None
             [MethodDefinition ''method'' (Identifier ''render'') False False
                (OtherNode ''FunctionExpression'')] None)"
             and i = "Identifier ''Foo''"
             and callee = "MemberExpression (Identifier ''React'') (Identifier ''createClass'') False"
             and props = "[Property ''init'' (Identifier ''render'')
                             (OtherNode ''FunctionExpression'') False,
                           Property ''init'' (Identifier ''displayName'')
                             (Literal (LString ''Bar'')) False]"
             and rest = "[]"]
        findDisplayName_on_classes_and_factory_calls
          [where node = "ClassNode (ClassDef None None
             [MethodDefinition ''method'' (Identifier ''render'') False False
                (OtherNode ''FunctionExpression'')] None)"]
  by (simp add: spec_displayName_def demo_host_def)

subsection \<open>The path resolver\<close>

text \<open>
  Claim C6. Under the conservative policy (the plugin's parent-of-parent directory is
  not named \<open>node_modules\<close>) a specifier that starts with \<open>.\<close> fails with
  \<open>UnsafeRelativePathError\<close> and any other specifier is returned unchanged; under the
  permissive policy the relative specifier succeeds with \<open>.\<close>, the separator and the
  path relative to the consuming file's directory, and any other specifier is returned
  unchanged.
\<close>

theorem resolvePath_by_policy:
  "resolvePath E specifiedPath filePath =
     (if path_basename E (parentDir E) = ''node_modules'' then
        (if take 1 specifiedPath = ''.'' then
           Inr (''.'' @ path_sep E @
                path_relative E (path_dirname E filePath)
                  (path_resolve E (path_join E [parentDir E, ''..'', specifiedPath])))
         else Inr specifiedPath)
      else
        (if take 1 specifiedPath = ''.'' then Inl (UnsafeRelativePathError specifiedPath)
         else Inr specifiedPath))"
  by (cases specifiedPath)
     (simp_all add: resolvePath_def resolvePathConservatively_def
        resolvePathAssumingWeAreInNodeModules_def)

lemma checkout_is_conservative:
  "path_basename checkout_env (parentDir checkout_env) = ''app''"
  by code_simp

lemma installed_is_permissive:
  "path_basename installed_env (parentDir installed_env) = ''node_modules''"
  by code_simp

lemma installed_relative:
  "path_relative installed_env (path_dirname installed_env ''/home/me/app/src/App.js'')
     (path_resolve installed_env
        (path_join installed_env [parentDir installed_env, ''..'', ''./src/App''])) = ''App''"
  by code_simp

text \<open>
  The checkout rejects \<open>./src/App\<close> and passes \<open>wrap-lib\<close> and \<open>/opt/wrap-lib\<close>
  through; the installed plugin rewrites \<open>./src/App\<close> to \<open>./App\<close> for the file
  \<open>/home/me/app/src/App.js\<close>.
\<close>

theorem resolvePath_by_policy_witness:
  "resolvePath checkout_env ''./src/App'' ''/home/me/app/src/App.js'' =
     Inl (UnsafeRelativePathError ''./src/App'')
   \<and> resolvePath checkout_env ''wrap-lib'' ''/home/me/app/src/App.js'' = Inr ''wrap-lib''
   \<and> resolvePath checkout_env ''/opt/wrap-lib'' ''/home/me/app/src/App.js'' =
       Inr ''/opt/wrap-lib''
   \<and> resolvePath installed_env ''./src/App'' ''/home/me/app/src/App.js'' = Inr ''./App''
   \<and> resolvePath installed_env ''wrap-lib'' ''/home/me/app/src/App.js'' = Inr ''wrap-lib''"
  using resolvePath_by_policy [of checkout_env "''./src/App''" "''/home/me/app/src/App.js''"]
        resolvePath_by_policy [of checkout_env "''wrap-lib''" "''/home/me/app/src/App.js''"]
        resolvePath_by_policy [of checkout_env "''/opt/wrap-lib''" "''/home/me/app/src/App.js''"]
        resolvePath_by_policy [of installed_env "''./src/App''" "''/home/me/app/src/App.js''"]
        resolvePath_by_policy [of installed_env "''wrap-lib''" "''/home/me/app/src/App.js''"]
        checkout_is_conservative installed_is_permissive installed_relative
  by (simp add: installed_env_def checkout_env_def posix_env_def)

subsection \<open>One traversal\<close>

lemma handle_no_component:
  "no_component H ev \<Longrightarrow>
     \<exists>st'. handle H ev st h = Inr (Untouched, st', h) \<and> recordsKey st' = recordsKey st
            \<and> wrapComponentIdKey st' = wrapComponentIdKey st"
  by (cases ev)
     (simp_all add: handle_def Function_enter_def Function_exit_def Class_visit_def
        CallExpression_exit_def Let_def)

lemma traverse_no_component:
  "\<forall>ev \<in> set evs. no_component H ev \<Longrightarrow>
     \<exists>st'. traverse H evs st h = Inr (map (\<lambda>ev. Untouched) evs, st', h)
            \<and> recordsKey st' = recordsKey st
            \<and> wrapComponentIdKey st' = wrapComponentIdKey st"
proof (induction evs arbitrary: st)
  case Nil
  show ?case by simp
next
  case (Cons ev evs)
  from Cons.prems have "no_component H ev" by simp
  from handle_no_component [OF this, of st h] obtain st1 where
    h: "handle H ev st h = Inr (Untouched, st1, h)" and
    r: "recordsKey st1 = recordsKey st" "wrapComponentIdKey st1 = wrapComponentIdKey st"
    by blast
  from Cons.prems have "\<forall>ev \<in> set evs. no_component H ev" by simp
  from Cons.IH [OF this, of st1] obtain st2 where
    t: "traverse H evs st1 h = Inr (map (\<lambda>ev. Untouched) evs, st2, h)" and
    r2: "recordsKey st2 = recordsKey st1" "wrapComponentIdKey st2 = wrapComponentIdKey st1"
    by blast
  show ?case using h t r r2 by simp
qed

lemma transform_no_component:
  assumes "\<forall>ev \<in> set evs. no_component H ev"
  shows "\<exists>st'. recordsKey st' = None \<and>
           (\<forall>E file program. transform E H file evs program h =
              Inr (map (\<lambda>ev. Untouched) evs, None, st',
                   snd (generateUidIdentifier H ''wrapComponent'' h)))"
proof -
  obtain uid h0 where g: "generateUidIdentifier H ''wrapComponent'' h = (uid, h0)"
    by (cases "generateUidIdentifier H ''wrapComponent'' h")
  define st0 where "st0 = initial_state\<lparr>wrapComponentIdKey := Some (Identifier uid)\<rparr>"
  have pe: "Program_enter H initial_state h = (st0, h0)"
    by (simp add: Program_enter_def g st0_def)
  from traverse_no_component [OF assms, of st0 h0] obtain st1 where
    t: "traverse H evs st0 h0 = Inr (map (\<lambda>ev. Untouched) evs, st1, h0)" and
    r: "recordsKey st1 = recordsKey st0"
    by blast
  have r0: "recordsKey st1 = None" using r by (simp add: st0_def initial_state_def)
  then have nf: "\<not> foundComponentRecords st1" by (simp add: foundComponentRecords_def)
  have "transform E H f evs program h =
          Inr (map (\<lambda>ev. Untouched) evs, None, st1,
               snd (generateUidIdentifier H ''wrapComponent'' h))" for E f program
  proof -
    have "Program_exit E H program f st1 h0 = Inr (None, st1, h0)"
      using nf by (simp add: Program_exit_def)
    with pe t g show ?thesis by (simp add: transform_def)
  qed
  with r0 show ?thesis by blast
qed

lemma findDisplayName_class: "\<exists>r. findDisplayName (ClassNode cls) = Inr r"
  by (cases "class_id cls") (simp_all add: findDisplayName_def)

lemma findDisplayName_createClass:
  "isCreateClass M node \<Longrightarrow> \<exists>r. findDisplayName node = Inr r"
  using isCreateClass_shape [of M node]
  by (auto simp: findDisplayName_def findDisplayName_loop_spec)

lemma addComponentRecord_ok:
  "findDisplayName node = Inr r \<Longrightarrow>
     \<exists>uid st' h'. addComponentRecord H node st h = Inr (uid, st', h')
        \<and> foundComponentRecords st' \<and> wrapComponentIdKey st' = wrapComponentIdKey st"
  by (auto simp: addComponentRecord_def createComponentRecord_def Let_def
        foundComponentRecords_def split: prod.splits)

lemma handle_component:
  assumes "\<not> no_component H ev"
  shows "\<exists>eff st' h'. handle H ev st h = Inr (eff, st', h') \<and> foundComponentRecords st'"
proof (cases ev)
  case (VisitClass cls)
  with assms have c: "isComponentishClass cls" by simp
  from findDisplayName_class [of cls] obtain r where "findDisplayName (ClassNode cls) = Inr r" ..
  from addComponentRecord_ok [OF this, of H st h] obtain uid st' h' where
    "addComponentRecord H (ClassNode cls) st h = Inr (uid, st', h')" "foundComponentRecords st'"
    by blast
  with c VisitClass show ?thesis by (simp add: handle_def Class_visit_def Let_def)
next
  case (ExitCallExpression node)
  with assms have c: "isCreateClass (isCreateClassCallExpression H) node" by simp
  from findDisplayName_createClass [OF c] obtain r where "findDisplayName node = Inr r" ..
  from addComponentRecord_ok [OF this, of H st h] obtain uid st' h' where
    "addComponentRecord H node st h = Inr (uid, st', h')" "foundComponentRecords st'"
    by blast
  with c ExitCallExpression show ?thesis
    by (simp add: handle_def CallExpression_exit_def Let_def)
qed (use assms in simp_all)

lemma handle_keeps_found:
  assumes "foundComponentRecords st"
  shows "\<exists>eff st' h'. handle H ev st h = Inr (eff, st', h') \<and> foundComponentRecords st'"
proof (cases "no_component H ev")
  case True
  from handle_no_component [OF True, of st h] assms show ?thesis
    by (auto simp: foundComponentRecords_def)
next
  case False
  from handle_component [OF False] show ?thesis .
qed

lemma traverse_keeps_found:
  "foundComponentRecords st \<Longrightarrow>
     \<exists>effs st' h'. traverse H evs st h = Inr (effs, st', h') \<and> foundComponentRecords st'"
proof (induction evs arbitrary: st h)
  case Nil
  then show ?case by simp
next
  case (Cons ev evs)
  from handle_keeps_found [OF Cons.prems, of H ev h] obtain eff st1 h1 where
    h: "handle H ev st h = Inr (eff, st1, h1)" and f: "foundComponentRecords st1" by blast
  from Cons.IH [OF f, of h1] obtain effs st2 h2 where
    "traverse H evs st1 h1 = Inr (effs, st2, h2)" "foundComponentRecords st2" by blast
  with h show ?case by simp
qed

lemma traverse_component:
  "\<exists>ev \<in> set evs. \<not> no_component H ev \<Longrightarrow>
     \<exists>effs st' h'. traverse H evs st h = Inr (effs, st', h') \<and> foundComponentRecords st'"
proof (induction evs arbitrary: st h)
  case Nil
  then show ?case by simp
next
  case (Cons ev evs)
  show ?case
  proof (cases "no_component H ev")
    case True
    with Cons.prems have rest: "\<exists>ev \<in> set evs. \<not> no_component H ev" by simp
    from handle_no_component [OF True, of st h] obtain st1 where
      h: "handle H ev st h = Inr (Untouched, st1, h)" by blast
    from Cons.IH [OF rest, of st1 h] obtain effs st2 h2 where
      "traverse H evs st1 h = Inr (effs, st2, h2)" "foundComponentRecords st2" by blast
    with h show ?thesis by simp
  next
    case False
    from handle_component [OF False, of st h] obtain eff st1 h1 where
      h: "handle H ev st h = Inr (eff, st1, h1)" and f: "foundComponentRecords st1" by blast
    from traverse_keeps_found [OF f, of H evs h1] obtain effs st2 h2 where
      "traverse H evs st1 h1 = Inr (effs, st2, h2)" "foundComponentRecords st2" by blast
    with h show ?thesis by simp
  qed
qed

lemma Program_exit_bad_options:
  assumes "foundComponentRecords st" "opts file = Some fo" "extra fo = Some extras"
    and "extras ''react-transform'' = None \<or> extras ''react-transform'' = Some NotAnArray"
  shows "Program_exit E H program file st h = Inl ConfigurationError"
  using assms by (auto simp: Program_exit_def getPluginOptions_def)

lemma quiet_events_quiet: "\<forall>ev \<in> set quiet_events. no_component demo_host ev"
  by (simp add: quiet_events_def plain_class_def isComponentishClass_def demo_host_def)

text \<open>
  Claim C5. When no visited node is component-like (no class with a \<open>render\<close> method,
  no qualifying factory call), no handler touches its node and \<open>Program.exit\<close> replaces
  nothing: the tree stays as it was, no record is kept, and the host was asked for
  nothing but the wrapper identifier \<open>Program.enter\<close> allocates.
\<close>

theorem transform_without_components_changes_nothing:
  assumes "\<forall>ev \<in> set evs. no_component H ev"
  shows "\<exists>st'. transform E H file evs program h =
           Inr (map (\<lambda>ev. Untouched) evs, None, st',
                snd (generateUidIdentifier H ''wrapComponent'' h))
         \<and> recordsKey st' = None"
  using transform_no_component [OF assms, of h] by blast

text \<open>The quiet traversal of a file whose configuration names one target.\<close>

theorem transform_without_components_changes_nothing_witness:
  "list_all (no_component demo_host) quiet_events
   \<and> (\<exists>st'. transform installed_env demo_host
               (app_file (Some (\<lambda>k. Some (OptionsArray
                  [\<lparr>target = ''wrap-lib'', target_imports = None, target_locals = None\<rparr>]))))
               quiet_events (Program [OtherNode ''ClassDeclaration'']) [] =
             Inr ([Untouched, Untouched, Untouched, Untouched], None, st',
                  [''uid wrapComponent''])
           \<and> recordsKey st' = None)"
  using transform_without_components_changes_nothing [OF quiet_events_quiet,
          of installed_env
             "app_file (Some (\<lambda>k. Some (OptionsArray
                  [\<lparr>target = ''wrap-lib'', target_imports = None, target_locals = None\<rparr>])))"
             "Program [OtherNode ''ClassDeclaration'']" "[]"]
        quiet_events_quiet
  by (simp add: list_all_iff demo_host_def demo_generateUidIdentifier_def quiet_events_def)

text \<open>
  Claim C10. The configuration is read only in \<open>Program.exit\<close> and only after a record
  was kept: when no visited node is component-like the transform completes, with one
  and the same result whatever the file's options are, so never with
  \<open>ConfigurationError\<close>.
\<close>

theorem options_are_not_read_without_components:
  assumes "\<forall>ev \<in> set evs. no_component H ev"
  shows "\<exists>r. \<forall>file. transform E H file evs program h = Inr r"
  using transform_no_component [OF assms, of h] by blast

text \<open>
  The quiet traversal with no options object, with no \<open>extra\<close>, and with a
  \<open>react-transform\<close> entry that is not an array.
\<close>

theorem options_are_not_read_without_components_witness:
  "list_all (no_component demo_host) quiet_events
   \<and> (\<exists>r. transform checkout_env demo_host \<lparr>opts = None\<rparr> quiet_events (Program []) [] = Inr r
          \<and> transform checkout_env demo_host (app_file None) quiet_events (Program []) [] =
              Inr r
          \<and> transform checkout_env demo_host (app_file (Some (\<lambda>k. Some NotAnArray)))
                quiet_events (Program []) [] = Inr r)"
  using options_are_not_read_without_components [OF quiet_events_quiet,
          of checkout_env "Program []" "[]"]
        quiet_events_quiet
  by (auto simp: list_all_iff)

text \<open>
  Claim C2, as stated, fails: it speaks of every input file, but a file without
  components passes although \<open>extra['react-transform']\<close> is absent.
\<close>

theorem missing_options_pass_without_components:
  "transform checkout_env demo_host (app_file (Some (\<lambda>k. None))) quiet_events
     (Program [OtherNode ''ClassDeclaration'']) [] =
     Inr ([Untouched, Untouched, Untouched, Untouched], None,
          \<lparr>depthKey = JNum 0, recordsKey = None,
           wrapComponentIdKey = Some (Identifier ''_wrapComponent'')\<rparr>,
          [''uid wrapComponent''])"
  by code_simp

text \<open>
  Claim C2, amended. For every input file in which at least one component-like node is
  visited and whose options carry an \<open>extra\<close> object: if the entry
  \<open>react-transform\<close> is absent or is not a list, the transform fails with
  \<open>ConfigurationError\<close>; the error is all the transform returns, no program is
  synthesized.
\<close>

theorem missing_options_fail_once_a_component_is_found:
  assumes "\<exists>ev \<in> set evs. \<not> no_component H ev"
    and "opts file = Some fo" and "extra fo = Some extras"
    and "extras ''react-transform'' = None \<or> extras ''react-transform'' = Some NotAnArray"
  shows "transform E H file evs program h = Inl ConfigurationError"
proof -
  obtain st0 h0 where pe: "Program_enter H initial_state h = (st0, h0)"
    by (cases "Program_enter H initial_state h")
  from traverse_component [OF assms(1), of st0 h0] obtain effs st1 h1 where
    t: "traverse H evs st0 h0 = Inr (effs, st1, h1)" and f: "foundComponentRecords st1"
    by blast
  from Program_exit_bad_options [OF f assms(2,3,4)]
  have "Program_exit E H program file st1 h1 = Inl ConfigurationError" .
  with pe t show ?thesis by (simp add: transform_def)
qed

text \<open>The class \<open>Foo\<close> with a \<open>render\<close> method, and no \<open>react-transform\<close> entry.\<close>

theorem missing_options_fail_once_a_component_is_found_witness:
  "list_ex (\<lambda>ev. \<not> no_component demo_host ev) [VisitClass component_class]
   \<and> opts (app_file (Some (\<lambda>k. None))) =
       Some \<lparr>extra = Some (\<lambda>k. None), filename = ''/home/me/app/src/App.js''\<rparr>
   \<and> transform checkout_env demo_host (app_file (Some (\<lambda>k. None)))
       [VisitClass component_class] (Program [OtherNode ''ClassDeclaration'']) [] =
       Inl ConfigurationError"
proof -
  have c: "\<exists>ev \<in> set [VisitClass component_class]. \<not> no_component demo_host ev"
    by (simp add: component_class_def isComponentishClass_def)
  have o: "opts (app_file (Some (\<lambda>k. None))) =
             Some \<lparr>extra = Some (\<lambda>k. None), filename = ''/home/me/app/src/App.js''\<rparr>"
    by (simp add: app_file_def)
  have x: "extra \<lparr>extra = Some (\<lambda>k. None), filename = ''/home/me/app/src/App.js''\<rparr> =
             Some (\<lambda>k. None)"
    by simp
  have a: "(\<lambda>k. None :: plugin_options option) ''react-transform'' = None
           \<or> (\<lambda>k. None) ''react-transform'' = Some NotAnArray"
    by simp
  from missing_options_fail_once_a_component_is_found [OF c o x a] c o
  show ?thesis by (simp add: list_ex_iff)
qed

subsection \<open>The self-import guard\<close>

lemma some_True_split:
  "some f xs = Inr True \<Longrightarrow>
     \<exists>pre x post. xs = pre @ x # post \<and> f x = Inr True \<and> (\<forall>y \<in> set pre. f y = Inr False)"
proof (induction xs)
  case Nil
  then show ?case by simp
next
  case (Cons a xs)
  show ?case
  proof (cases "f a")
    case (Inl e)
    with Cons.prems show ?thesis by simp
  next
    case (Inr b)
    show ?thesis
    proof (cases b)
      case True
      with Inr have "a # xs = [] @ a # xs \<and> f a = Inr True \<and> (\<forall>y \<in> set []. f y = Inr False)"
        by simp
      then show ?thesis by blast
    next
      case False
      with Inr Cons.prems have "some f xs = Inr True" by simp
      from Cons.IH [OF this] obtain pre x post where
        "xs = pre @ x # post" "f x = Inr True" "\<forall>y \<in> set pre. f y = Inr False" by blast
      with Inr False have "a # xs = (a # pre) @ x # post \<and> f x = Inr True \<and>
          (\<forall>y \<in> set (a # pre). f y = Inr False)" by simp
      then show ?thesis by blast
    qed
  qed
qed

lemma some_True_found:
  "f x = Inr True \<Longrightarrow> \<forall>y \<in> set pre. \<exists>b. f y = Inr b \<Longrightarrow> some f (pre @ x # post) = Inr True"
proof (induction pre)
  case Nil
  then show ?case by simp
next
  case (Cons a pre)
  from Cons.prems(2) obtain b where b: "f a = Inr b" by auto
  from Cons have "some f (pre @ x # post) = Inr True" by simp
  with b show ?case by (cases b) simp_all
qed

lemma isSame_True_iff:
  "isSameAsFileBeingProcessed E fileName imp = Inr True \<longleftrightarrow>
     refers_to_file_being_processed E fileName imp"
  by (simp add: isSameAsFileBeingProcessed_def refers_to_file_being_processed_def
        split: sum.splits)

lemma isSame_Inr_iff:
  "(\<exists>b. isSameAsFileBeingProcessed E fileName imp = Inr b) \<longleftrightarrow>
     (\<exists>p. resolvePath E imp fileName = Inr p)"
  by (simp add: isSameAsFileBeingProcessed_def split: sum.splits)

lemma self_importing_iff:
  "self_importing E fileName t \<longleftrightarrow>
     (\<exists>pre imp post. imports_of t = pre @ imp # post
        \<and> refers_to_file_being_processed E fileName imp
        \<and> (\<forall>x \<in> set pre. \<exists>p. resolvePath E x fileName = Inr p))"
    (is "?L \<longleftrightarrow> ?R")
proof
  assume ?L
  then have "some (isSameAsFileBeingProcessed E fileName) (imports_of t) = Inr True"
    by (simp add: self_importing_def)
  from some_True_split [OF this] obtain pre x post where
    d: "imports_of t = pre @ x # post" and
    x: "isSameAsFileBeingProcessed E fileName x = Inr True" and
    p: "\<forall>y \<in> set pre. isSameAsFileBeingProcessed E fileName y = Inr False" by blast
  from p have "\<forall>y \<in> set pre. \<exists>p. resolvePath E y fileName = Inr p"
    using isSame_Inr_iff [of E fileName] by blast
  with d x show ?R using isSame_True_iff [of E fileName x] by blast
next
  assume ?R
  then obtain pre imp post where
    d: "imports_of t = pre @ imp # post" and
    x: "refers_to_file_being_processed E fileName imp" and
    p: "\<forall>x \<in> set pre. \<exists>p. resolvePath E x fileName = Inr p" by blast
  from x have x': "isSameAsFileBeingProcessed E fileName imp = Inr True"
    by (simp add: isSame_True_iff)
  from p have p': "\<forall>y \<in> set pre. \<exists>b. isSameAsFileBeingProcessed E fileName y = Inr b"
    using isSame_Inr_iff [of E fileName] by blast
  from some_True_found [OF x' p', of post] d show ?L by (simp add: self_importing_def)
qed

lemma defineInitTransformCall_cases:
  assumes "opts file = Some fo"
  shows "(self_importing E (filename fo) t \<longrightarrow>
            defineInitTransformCall E H file recordsId t h =
              Inr (None, snd (generateUidIdentifier H ''reactComponentWrapper'' h)))
       \<and> (\<not> self_importing E (filename fo) t \<longrightarrow>
            (\<exists>e. defineInitTransformCall E H file recordsId t h = Inl e)
          \<or> (\<exists>call h'. defineInitTransformCall E H file recordsId t h = Inr (Some call, h')))"
proof (cases "some (isSameAsFileBeingProcessed E (filename fo)) (imports_of t)")
  case (Inl e)
  with assms show ?thesis
    by (simp add: defineInitTransformCall_def self_importing_def imports_of_def Let_def
          split: prod.splits)
next
  case (Inr b)
  show ?thesis
  proof (cases b)
    case True
    with Inr assms show ?thesis
      by (simp add: defineInitTransformCall_def self_importing_def imports_of_def Let_def
            split: prod.splits)
  next
    case False
    with Inr assms show ?thesis
      by (auto simp: defineInitTransformCall_def self_importing_def imports_of_def Let_def
            split: prod.splits sum.splits)
  qed
qed

lemma mapInitTransformCalls_append:
  "mapInitTransformCalls E H file recordsId (xs @ ys) h =
     (case mapInitTransformCalls E H file recordsId xs h of
        Inl e \<Rightarrow> Inl e
      | Inr (rs, h1) \<Rightarrow>
         (case mapInitTransformCalls E H file recordsId ys h1 of
            Inl e \<Rightarrow> Inl e
          | Inr (rs', h2) \<Rightarrow> Inr (rs @ rs', h2)))"
  by (induction xs arbitrary: h) (auto split: sum.splits prod.splits)

lemma filterBoolean_append: "filterBoolean (xs @ ys) = filterBoolean xs @ filterBoolean ys"
  by (induction xs rule: filterBoolean.induct) simp_all

lemma defineInitTransformCall_omitted_iff:
  assumes "opts file = Some fo"
  shows "omitted (defineInitTransformCall E H file recordsId t h) \<longleftrightarrow>
           self_importing E (filename fo) t"
  using defineInitTransformCall_cases [OF assms, of E t H recordsId h]
  by (cases "self_importing E (filename fo) t") auto

text \<open>
  Claim C1, as stated, fails: an import that names the file being processed by its
  absolute path has the file's directory component and base name, and the target is
  not skipped.
\<close>

theorem absolute_self_import_is_not_skipped:
  "spec_same_module checkout_env ''/home/me/app/src/App.js'' ''/home/me/app/src/App.js''
   \<and> \<not> omitted
         (defineInitTransformCall checkout_env demo_host (app_file None)
            (Identifier ''_components'')
            \<lparr>target = ''wrap-lib'', target_imports = Some [''/home/me/app/src/App.js''],
             target_locals = None\<rparr> [])"
  by code_simp

text \<open>
  Claim C1, amended. \<open>defineInitTransformCall\<close> returns nothing for a target exactly
  when some entry of its \<open>imports\<close>, every earlier entry resolving, resolves to a path
  whose directory component is \<open>.\<close> and whose base name without extension is that of
  the file being processed. It then has asked the host for one fresh identifier and for
  no import. The init calls of the targets before and after a skipped one are the ones
  \<open>defineInitTransformCall\<close> makes for them on their own, from the host's state before
  and after that identifier was drawn; the skipped target leaves no entry between them.
\<close>

theorem self_import_guard:
  assumes "opts file = Some fo"
  shows "(omitted (defineInitTransformCall E H file recordsId t h) \<longleftrightarrow>
            (\<exists>pre imp post. imports_of t = pre @ imp # post
               \<and> refers_to_file_being_processed E (filename fo) imp
               \<and> (\<forall>x \<in> set pre. \<exists>p. resolvePath E x (filename fo) = Inr p)))
       \<and> (omitted (defineInitTransformCall E H file recordsId t h) \<longrightarrow>
            defineInitTransformCall E H file recordsId t h =
              Inr (None, snd (generateUidIdentifier H ''reactComponentWrapper'' h)))
       \<and> (omitted (defineInitTransformCall E H file recordsId t h)
            \<and> mapInitTransformCalls E H file recordsId before h0 = Inr (rs, h1)
            \<and> mapInitTransformCalls E H file recordsId after
                (snd (generateUidIdentifier H ''reactComponentWrapper'' h1)) = Inr (rs', h2)
          \<longrightarrow> mapInitTransformCalls E H file recordsId (before @ t # after) h0 =
                Inr (rs @ None # rs', h2)
              \<and> filterBoolean (rs @ None # rs') = filterBoolean rs @ filterBoolean rs')"
proof (intro conjI impI)
  show "omitted (defineInitTransformCall E H file recordsId t h) \<longleftrightarrow>
            (\<exists>pre imp post. imports_of t = pre @ imp # post
               \<and> refers_to_file_being_processed E (filename fo) imp
               \<and> (\<forall>x \<in> set pre. \<exists>p. resolvePath E x (filename fo) = Inr p))"
    by (simp add: defineInitTransformCall_omitted_iff [OF assms] self_importing_iff)
next
  assume "omitted (defineInitTransformCall E H file recordsId t h)"
  then have "self_importing E (filename fo) t"
    by (simp add: defineInitTransformCall_omitted_iff [OF assms])
  then show "defineInitTransformCall E H file recordsId t h =
              Inr (None, snd (generateUidIdentifier H ''reactComponentWrapper'' h))"
    using defineInitTransformCall_cases [OF assms, of E t H recordsId h] by simp
next
  assume a: "omitted (defineInitTransformCall E H file recordsId t h)
            \<and> mapInitTransformCalls E H file recordsId before h0 = Inr (rs, h1)
            \<and> mapInitTransformCalls E H file recordsId after
                (snd (generateUidIdentifier H ''reactComponentWrapper'' h1)) = Inr (rs', h2)"
  then have "self_importing E (filename fo) t"
    by (simp add: defineInitTransformCall_omitted_iff [OF assms])
  then have "defineInitTransformCall E H file recordsId t h1 =
              Inr (None, snd (generateUidIdentifier H ''reactComponentWrapper'' h1))"
    using defineInitTransformCall_cases [OF assms, of E t H recordsId h1] by simp
  with a show "mapInitTransformCalls E H file recordsId (before @ t # after) h0 =
                Inr (rs @ None # rs', h2)"
    by (simp add: mapInitTransformCalls_append)
next
  show "filterBoolean (rs @ None # rs') = filterBoolean rs @ filterBoolean rs'"
    by (simp add: filterBoolean_append)
qed

lemma demo_opts:
  "opts demo_file =
     Some \<lparr>extra = Some (\<lambda>k. if k = ''react-transform''
                               then Some (OptionsArray [wrap_target, hot_target, catch_target])
                               else None),
           filename = ''/home/me/app/src/App.js''\<rparr>"
  by (simp add: demo_file_def app_file_def)

lemma hot_imports: "imports_of hot_target = [''react''] @ ''./src/App'' # []"
  by (simp add: imports_of_def hot_target_def)

lemma hot_refers:
  "refers_to_file_being_processed installed_env ''/home/me/app/src/App.js'' ''./src/App''"
  by code_simp

lemma react_resolves: "resolvePath installed_env ''react'' ''/home/me/app/src/App.js'' = Inr ''react''"
  by code_simp

lemma demo_before:
  "mapInitTransformCalls installed_env demo_host demo_file (Identifier ''_components'')
     [wrap_target] [] =
     Inr ([Some (Identifier ''_reactComponentWrapper'',
                 init_call ''_reactComponentWrapper'' ''wrap-lib'' [''module''] [])],
          [''uid reactComponentWrapper'', ''import wrap-lib''])"
  by code_simp

lemma demo_after:
  "mapInitTransformCalls installed_env demo_host demo_file (Identifier ''_components'')
     [catch_target]
     (snd (generateUidIdentifier demo_host ''reactComponentWrapper''
             [''uid reactComponentWrapper'', ''import wrap-lib''])) =
     Inr ([Some (Identifier ''_reactComponentWrapper3'',
                 init_call ''_reactComponentWrapper3'' ''./../lib/catch'' [] [''react''])],
          [''uid reactComponentWrapper'', ''import wrap-lib'',
           ''uid reactComponentWrapper'', ''uid reactComponentWrapper'',
           ''import ./../lib/catch'', ''import react''])"
  by code_simp

text \<open>
  Installed as a dependency, the plugin skips the target that imports \<open>./src/App\<close>
  while processing \<open>/home/me/app/src/App.js\<close>; the targets around it keep their init
  calls.
\<close>

theorem self_import_guard_witness:
  "imports_of hot_target = [''react''] @ ''./src/App'' # []
   \<and> refers_to_file_being_processed installed_env ''/home/me/app/src/App.js'' ''./src/App''
   \<and> omitted (defineInitTransformCall installed_env demo_host demo_file
                (Identifier ''_components'') hot_target [])
   \<and> defineInitTransformCall installed_env demo_host demo_file
         (Identifier ''_components'') hot_target [] =
       Inr (None, [''uid reactComponentWrapper''])
   \<and> mapInitTransformCalls installed_env demo_host demo_file (Identifier ''_components'')
         ([wrap_target] @ hot_target # [catch_target]) [] =
       Inr ([Some (Identifier ''_reactComponentWrapper'',
                   init_call ''_reactComponentWrapper'' ''wrap-lib'' [''module''] [])] @
            None #
            [Some (Identifier ''_reactComponentWrapper3'',
                   init_call ''_reactComponentWrapper3'' ''./../lib/catch'' [] [''react''])],
            [''uid reactComponentWrapper'', ''import wrap-lib'',
             ''uid reactComponentWrapper'', ''uid reactComponentWrapper'',
             ''import ./../lib/catch'', ''import react''])"
proof -
  let ?D = "defineInitTransformCall installed_env demo_host demo_file
              (Identifier ''_components'') hot_target []"
  note g = self_import_guard [OF demo_opts,
      of installed_env demo_host "Identifier ''_components''" hot_target "[]"
         "[wrap_target]" "[]"
         "[Some (Identifier ''_reactComponentWrapper'',
                 init_call ''_reactComponentWrapper'' ''wrap-lib'' [''module''] [])]"
         "[''uid reactComponentWrapper'', ''import wrap-lib'']"
         "[catch_target]"
         "[Some (Identifier ''_reactComponentWrapper3'',
                 init_call ''_reactComponentWrapper3'' ''./../lib/catch'' [] [''react''])]"
         "[''uid reactComponentWrapper'', ''import wrap-lib'',
           ''uid reactComponentWrapper'', ''uid reactComponentWrapper'',
           ''import ./../lib/catch'', ''import react'']"]
  have d: "\<exists>pre imp post. imports_of hot_target = pre @ imp # post
             \<and> refers_to_file_being_processed installed_env ''/home/me/app/src/App.js'' imp
             \<and> (\<forall>x \<in> set pre. \<exists>p. resolvePath installed_env x ''/home/me/app/src/App.js'' = Inr p)"
  proof (intro exI conjI)
    show "imports_of hot_target = [''react''] @ ''./src/App'' # []" by (rule hot_imports)
    show "refers_to_file_being_processed installed_env ''/home/me/app/src/App.js'' ''./src/App''"
      by (rule hot_refers)
    show "\<forall>x \<in> set [''react'']. \<exists>p. resolvePath installed_env x ''/home/me/app/src/App.js'' = Inr p"
      using react_resolves by simp
  qed
  from g d have om: "omitted ?D" by simp
  from g om have res: "?D = Inr (None, snd (generateUidIdentifier demo_host ''reactComponentWrapper'' []))"
    by blast
  have uid: "snd (generateUidIdentifier demo_host ''reactComponentWrapper'' []) =
               [''uid reactComponentWrapper'']"
    by code_simp
  from g om demo_before demo_after
  have m: "mapInitTransformCalls installed_env demo_host demo_file (Identifier ''_components'')
         ([wrap_target] @ hot_target # [catch_target]) [] =
       Inr ([Some (Identifier ''_reactComponentWrapper'',
                   init_call ''_reactComponentWrapper'' ''wrap-lib'' [''module''] [])] @
            None #
            [Some (Identifier ''_reactComponentWrapper3'',
                   init_call ''_reactComponentWrapper3'' ''./../lib/catch'' [] [''react''])],
            [''uid reactComponentWrapper'', ''import wrap-lib'',
             ''uid reactComponentWrapper'', ''uid reactComponentWrapper'',
             ''import ./../lib/catch'', ''import react''])"
    by blast
  from hot_imports hot_refers om res uid m show ?thesis by simp
qed

subsection \<open>The rebuilt program\<close>





















end
